theory Spec2Isabelle
  imports Complex_Main
begin

section \<open>The conversation hook of src/hooks/conversation.ts\<close>

text \<open>
  The repository is one React hook, \<^verbatim>\<open>useConversation\<close>. Its state cells
  (\<^verbatim>\<open>React.useState\<close>) become the fields of a record, its event handlers and
  effects become functions on that record, and the objects it mutates in place (the
  audio queue array, the transcriber and synthesizer configuration objects) live in
  explicit stores indexed by address.
\<close>

subsection \<open>Transcript fragments (\<^verbatim>\<open>socket.onmessage\<close>, lines 334-353)\<close>

text \<open>
  \<^verbatim>\<open>Transcript\<close> is \<^verbatim>\<open>{sender, text}\<close>. Both fields come out of
  \<^verbatim>\<open>JSON.parse\<close>; they are strings here
  (\<open>textStr\<close> is the field \<^verbatim>\<open>text\<close>).
\<close>

record Transcript =
  sender :: string
  textStr :: string

text \<open>
  \<^verbatim>\<open>Array.prototype.pop\<close>: the last element and the array without it, or
  \<^verbatim>\<open>undefined\<close> and the array as it is when it is empty.
\<close>

definition pop :: "'a list \<Rightarrow> 'a option \<times> 'a list" where
  "pop xs = (if xs = [] then (None, xs) else (Some (last xs), butlast xs))"

definition push :: "'a list \<Rightarrow> 'a \<Rightarrow> 'a list" where
  "push xs x = xs @ [x]"

text \<open>
  The updater passed to \<^verbatim>\<open>setTranscripts\<close>:
  \<^verbatim>\<open>
  let last = prev.pop();
  if (last && last.sender === message.sender) {
    prev.push({sender: message.sender, text: last.text + " " + message.text});
  } else {
    if (last) { prev.push(last); }
    prev.push({sender: message.sender, text: message.text});
  }
  return prev;
  \<close>
\<close>

definition onTranscript :: "Transcript list \<Rightarrow> Transcript \<Rightarrow> Transcript list" where
  "onTranscript prev message =
     (case pop prev of
        (Some l, prev1) \<Rightarrow>
          (if sender l = sender message
           then push prev1 \<lparr>sender = sender message, textStr = textStr l @ '' '' @ textStr message\<rparr>
           else push (push prev1 l) \<lparr>sender = sender message, textStr = textStr message\<rparr>)
      | (None, prev1) \<Rightarrow>
          push prev1 \<lparr>sender = sender message, textStr = textStr message\<rparr>)"

subsection \<open>Errors\<close>

text \<open>
  What the hook and the browser objects it calls can throw: \<^verbatim>\<open>new Error(msg)\<close>,
  the \<^verbatim>\<open>TypeError\<close> of a property read or \<^verbatim>\<open>Object.assign\<close> on
  \<^verbatim>\<open>undefined\<close>, and the \<^verbatim>\<open>InvalidStateError\<close> of
  \<^verbatim>\<open>WebSocket.send\<close> on a connecting socket.
\<close>

datatype jserror = Error string | TypeError | InvalidStateError

subsection \<open>Configuration objects and the store they live in\<close>

text \<open>
  The type declarations of \<^verbatim>\<open>../types\<close> are not among the sources. The records
  below have the fields the hook reads or writes. Numbers are integers (sampling rates,
  chunk sizes and factors are integral). An optional key of the configuration is an
  \<open>option\<close> field: \<open>None\<close> is the absent key, so \<^verbatim>\<open>key in config\<close> is
  \<open>\<noteq> None\<close>.
\<close>

type_synonym AudioEncoding = string
type_synonym AgentConfig = string
type_synonym ref = nat

record AudioMetadata =
  samplingRate :: int
  audioEncoding :: AudioEncoding

record InputAudioConfig = AudioMetadata +
  chunkSize :: int
  downsampling :: "int option"

record TranscriberConfig = InputAudioConfig +
  type :: string

record SynthesizerConfig = AudioMetadata +
  synthesizerType :: string

record VocodeConfig =
  apiKey :: string
  baseUrl :: "string option"
  conversationId :: "string option"

record AudioDeviceConfig =
  inputDeviceId :: "string option"
  outputSamplingRate :: "int option"

text \<open>
  \<^verbatim>\<open>ConversationConfig | SelfHostedConversationConfig\<close> as one object with
  optional keys. The transcriber and synthesizer configurations are objects the hook
  mutates with \<^verbatim>\<open>Object.assign\<close>, so the configuration holds their addresses.
\<close>

record Config =
  audioDeviceConfig :: AudioDeviceConfig
  vocodeConfig :: "VocodeConfig option"
  transcriberConfig :: "ref option"
  agentConfig :: "AgentConfig option"
  synthesizerConfig :: "ref option"
  backendUrl :: "string option"
  chunkSize :: "int option"
  downsampling :: "int option"
  conversationId :: "string option"
  subscribeTranscript :: "bool option"
  timeSlice :: "int option"

record Store =
  transcribers :: "ref \<Rightarrow> TranscriberConfig"
  synthesizers :: "ref \<Rightarrow> SynthesizerConfig"

text \<open>
  \<^verbatim>\<open>Object.assign(target, metadata)\<close> writes the two keys of the metadata into
  the target object itself and returns the target: the object at the address changes
  and the address is the result.
\<close>

definition assignTranscriber :: "ref \<Rightarrow> AudioMetadata \<Rightarrow> Store \<Rightarrow> ref \<times> Store" where
  "assignTranscriber r m st =
     (r, st\<lparr>transcribers := (transcribers st)
            (r := (transcribers st r)\<lparr>samplingRate := samplingRate m,
                                       audioEncoding := audioEncoding m\<rparr>)\<rparr>)"

definition assignSynthesizer :: "ref \<Rightarrow> AudioMetadata \<Rightarrow> Store \<Rightarrow> ref \<times> Store" where
  "assignSynthesizer r m st =
     (r, st\<lparr>synthesizers := (synthesizers st)
            (r := (synthesizers st r)\<lparr>samplingRate := samplingRate m,
                                       audioEncoding := audioEncoding m\<rparr>)\<rparr>)"

subsection \<open>Messages\<close>

text \<open>
  The objects the hook builds before \<^verbatim>\<open>stringify\<close>. A
  \<^verbatim>\<open>websocket_start\<close> message refers to the transcriber and synthesizer objects
  of the configuration; the other messages hold plain values.
\<close>

datatype Message =
    StartMessage ref "AgentConfig option" ref "string option"
  | AudioConfigStartMessage InputAudioConfig AudioMetadata "string option" "bool option"
  | AudioMessage string
  | StopMessage


datatype Wire =
    WsStart TranscriberConfig "AgentConfig option" SynthesizerConfig "string option"
  | WsAudioConfigStart InputAudioConfig AudioMetadata "string option" "bool option"
  | WsAudio string
  | WsStop

text \<open>
  Modelled from the spec: \<^verbatim>\<open>stringify\<close> of \<^verbatim>\<open>../utils\<close> is not among the
  sources. Messages are JSON-framed (section 6), so the serialized message is the
  message with every object it refers to read at the time of the call.
\<close>

fun stringify :: "Store \<Rightarrow> Message \<Rightarrow> Wire" where
  "stringify st (StartMessage t a s c) = WsStart (transcribers st t) a (synthesizers st s) c"
| "stringify st (AudioConfigStartMessage i outp c sub) = WsAudioConfigStart i outp c sub"
| "stringify st (AudioMessage d) = WsAudio d"
| "stringify st StopMessage = WsStop"


subsection \<open>Building the start message (lines 161-210 and 395-420)\<close>

definition DEFAULT_CHUNK_SIZE :: int where
  "DEFAULT_CHUNK_SIZE = 2048"

text \<open>
  \<^verbatim>\<open>getStartMessage\<close>. The local \<^verbatim>\<open>transcriberConfig\<close> is the result of
  \<^verbatim>\<open>Object.assign\<close>, that is the object of the configuration itself; the Safari
  branch writes its \<^verbatim>\<open>downsampling\<close> key. The returned literal evaluates its
  properties in order. A key the literal reads through (\<^verbatim>\<open>transcriberConfig\<close>,
  \<^verbatim>\<open>synthesizerConfig\<close>, \<^verbatim>\<open>vocodeConfig\<close>) throws when it is absent.
\<close>

definition getStartMessage ::
  "bool \<Rightarrow> Config \<Rightarrow> AudioMetadata \<Rightarrow> AudioMetadata \<Rightarrow> Store \<Rightarrow> jserror + (Message \<times> Store)" where
  "getStartMessage isSafari config inputAudioMetadata outputAudioMetadata st =
     (case transcriberConfig config of
        None \<Rightarrow> Inl TypeError
      | Some tref \<Rightarrow>
          let (tc, st1) = assignTranscriber tref inputAudioMetadata st;
              st2 = (if isSafari \<and> type (transcribers st1 tc) = ''transcriber_deepgram''
                     then st1\<lparr>transcribers := (transcribers st1)
                            (tc := (transcribers st1 tc)\<lparr>InputAudioConfig.downsampling := Some 2\<rparr>)\<rparr>
                     else st1);
              (t, st3) = assignTranscriber tref inputAudioMetadata st2
          in (case synthesizerConfig config of
                None \<Rightarrow> Inl TypeError
              | Some sref \<Rightarrow>
                  let (s, st4) = assignSynthesizer sref outputAudioMetadata st3
                  in (case vocodeConfig config of
                        None \<Rightarrow> Inl TypeError
                      | Some v \<Rightarrow>
                          Inr (StartMessage t (agentConfig config) s
                                 (VocodeConfig.conversationId v), st4))))"

text \<open>\<^verbatim>\<open>chunkSize || DEFAULT_CHUNK_SIZE\<close>: an absent or zero chunk size is falsy.\<close>

definition getAudioConfigStartMessage ::
  "AudioMetadata \<Rightarrow> AudioMetadata \<Rightarrow> int option \<Rightarrow> int option \<Rightarrow> string option \<Rightarrow> bool option
     \<Rightarrow> Message" where
  "getAudioConfigStartMessage inputAudioMetadata outputAudioMetadata chunkSize' downsampling'
       conversationId' subscribeTranscript' =
     AudioConfigStartMessage
       \<lparr>samplingRate = samplingRate inputAudioMetadata,
        audioEncoding = audioEncoding inputAudioMetadata,
        InputAudioConfig.chunkSize = (case chunkSize' of
                       None \<Rightarrow> DEFAULT_CHUNK_SIZE
                     | Some c \<Rightarrow> if c = 0 then DEFAULT_CHUNK_SIZE else c),
        InputAudioConfig.downsampling = downsampling'\<rparr>
       \<lparr>samplingRate = samplingRate outputAudioMetadata,
        audioEncoding = audioEncoding outputAudioMetadata\<rparr>
       conversationId' subscribeTranscript'"

text \<open>\<^verbatim>\<open>key in config\<close> for the keys the hook asks about.\<close>

definition hasKey :: "Config \<Rightarrow> string \<Rightarrow> bool" where
  "hasKey config key =
     (if key = ''transcriberConfig'' then transcriberConfig config \<noteq> None
      else if key = ''agentConfig'' then agentConfig config \<noteq> None
      else if key = ''synthesizerConfig'' then synthesizerConfig config \<noteq> None
      else if key = ''vocodeConfig'' then vocodeConfig config \<noteq> None
      else if key = ''backendUrl'' then backendUrl config \<noteq> None
      else if key = ''timeSlice'' then timeSlice config \<noteq> None
      else if key = ''chunkSize'' then chunkSize config \<noteq> None
      else if key = ''downsampling'' then downsampling config \<noteq> None
      else if key = ''conversationId'' then conversationId config \<noteq> None
      else if key = ''subscribeTranscript'' then subscribeTranscript config \<noteq> None
      else key = ''audioDeviceConfig'')"

text \<open>
  Lines 395-420 of \<^verbatim>\<open>startConversation\<close>: the start message is the full-service
  one when \<^verbatim>\<open>every\<close> of the four keys is in the configuration, the self-hosted one
  otherwise.
\<close>

definition selectStartMessage ::
  "bool \<Rightarrow> Config \<Rightarrow> AudioMetadata \<Rightarrow> AudioMetadata \<Rightarrow> Store \<Rightarrow> jserror + (Message \<times> Store)" where
  "selectStartMessage isSafari config inputAudioMetadata outputAudioMetadata st =
     (if list_all (hasKey config)
           [''transcriberConfig'', ''agentConfig'', ''synthesizerConfig'', ''vocodeConfig'']
      then getStartMessage isSafari config inputAudioMetadata outputAudioMetadata st
      else Inr (getAudioConfigStartMessage inputAudioMetadata outputAudioMetadata
                  (chunkSize config) (downsampling config) (conversationId config)
                  (subscribeTranscript config), st))"

subsection \<open>The capture time slice (lines 442-452)\<close>

text \<open>
  A JavaScript number that is either a finite integer or not finite
  (\<^verbatim>\<open>NaN\<close>, \<^verbatim>\<open>Infinity\<close>): a division by zero gives the latter.
  \<^verbatim>\<open>Math.round\<close> rounds to the nearest integer, a half upwards. The quotient is
  taken exactly.
\<close>

datatype jsnumber = Finite int | NonFinite

definition timeSliceOf :: "Store \<Rightarrow> Message \<Rightarrow> Config \<Rightarrow> jsnumber" where
  "timeSliceOf st startMessage config =
     (case startMessage of
        StartMessage t _ _ _ \<Rightarrow>
          (if samplingRate (transcribers st t) = 0 then NonFinite
           else Finite (round (real_of_int (1000 * InputAudioConfig.chunkSize (transcribers st t))
                               / real_of_int (samplingRate (transcribers st t)))))
      | _ \<Rightarrow>
          (if hasKey config ''timeSlice''
           then (case timeSlice config of Some ts \<Rightarrow> Finite ts | None \<Rightarrow> NonFinite)
           else Finite 10))"

subsection \<open>\<^verbatim>\<open>getBackendUrl\<close> (lines 150-159)\<close>

definition VOCODE_API_URL :: string where
  "VOCODE_API_URL = ''api.vocode.dev''"

definition getBackendUrl :: "Config \<Rightarrow> jserror + string" where
  "getBackendUrl config =
     (case backendUrl config of
        Some u \<Rightarrow> Inr u
      | None \<Rightarrow>
          (case vocodeConfig config of
             Some v \<Rightarrow>
               let base = (case baseUrl v of
                             None \<Rightarrow> VOCODE_API_URL
                           | Some b \<Rightarrow> if b = [] then VOCODE_API_URL else b)
               in Inr (''wss://'' @ base @ ''/conversation?key='' @ apiKey v)
           | None \<Rightarrow> Inl (Error ''Invalid config'')))"

subsection \<open>The state of the hook\<close>

datatype ConversationStatus = StatusIdle | StatusConnecting | StatusConnected | StatusError

datatype CurrentSpeaker = SpeakerNone | SpeakerUser | SpeakerAgent

datatype ReadyState = CONNECTING | OPEN | CLOSING | CLOSED

datatype RecorderState = RecInactive | RecRecording | RecPaused

text \<open>
  A \<^verbatim>\<open>WebSocket\<close>: its \<^verbatim>\<open>readyState\<close> and, in order, the frames the
  transport accepted from \<^verbatim>\<open>send\<close>.
\<close>

record WebSocket =
  url :: string
  readyState :: ReadyState
  sent :: "Wire list"

text \<open>
  A \<^verbatim>\<open>MediaRecorder\<close>: its \<^verbatim>\<open>state\<close>, the number of
  \<^verbatim>\<open>dataavailable\<close> listeners attached to it and the time slice it was started
  with.
\<close>

record MediaRecorder =
  state :: RecorderState
  listeners :: nat
  startedWith :: "jsnumber option"

text \<open>
  An inbound audio chunk is the payload of its message
  (\<^verbatim>\<open>Buffer.from(message.data, "base64")\<close>).
\<close>

type_synonym Buffer = string

text \<open>
  A chunk that the playback effect has taken from the queue: the effect's closure holds
  the array it took the chunk from, and \<^verbatim>\<open>onended\<close> reads that array.
  \<open>started\<close> is false until the \<^verbatim>\<open>decodeAudioData\<close> callback has called
  \<^verbatim>\<open>source.start(0)\<close>.
\<close>

record Source =
  chunk :: Buffer
  queue :: ref
  started :: bool

text \<open>Where the one call of \<^verbatim>\<open>startConversation\<close> stands.\<close>

datatype StartTask =
    NotCalled
  | WaitOpen
  | WaitMic
  | Returned
  | Rejected jserror

text \<open>
  The state cells of \<^verbatim>\<open>useConversation\<close> (lines 44-55), followed by what the
  cells refer to and what surrounds them: the arrays the \<^verbatim>\<open>audioQueue\<close> cell
  has pointed to, the chunks in playback, the log of the chunks whose playback has
  started, the dependencies each effect saw when it last ran, the store of the
  configuration objects, the pending call of \<^verbatim>\<open>startConversation\<close>, whether the closure of
  that call holds a \<^verbatim>\<open>recorder\<close> and a \<^verbatim>\<open>socket\<close>, and the local
  variables \<^verbatim>\<open>error\<close> and \<^verbatim>\<open>inputAudioMetadata\<close> of that call.

  \<open>audioContext\<close> says that the mount effect has set both the audio context and the
  analyser. The \<^verbatim>\<open>audioQueue\<close> cell holds the address of an array, because the
  playback effect shifts the array in place while
  \<^verbatim>\<open>setAudioQueue((prev) => [...prev, chunk])\<close> allocates a new one.
\<close>

record hook =
  audioContext :: bool
  audioQueue :: ref
  currentSpeaker :: CurrentSpeaker
  processing :: bool
  recorder :: "MediaRecorder option"
  socket :: "WebSocket option"
  status :: ConversationStatus
  error :: "jserror option"
  transcripts :: "Transcript list"
  active :: bool
  arrays :: "ref \<Rightarrow> Buffer list"
  nextRef :: ref
  sources :: "Source list"
  played :: "Buffer list"
  playDeps :: "(ref \<times> bool \<times> bool) option"
  listenDeps :: "(bool \<times> bool \<times> ConversationStatus \<times> bool) option"
  store :: Store
  task :: StartTask
  closureRecorder :: bool
  closureSocket :: bool
  socketError :: "jserror option"
  inputAudioMetadata :: AudioMetadata

text \<open>
  What the hook is given and what it finds: the constants \<^verbatim>\<open>isSafari\<close> and
  \<^verbatim>\<open>isChrome\<close> of the capability probe, its two arguments, and the sample rate of
  the audio context.
\<close>

record env =
  isSafari :: bool
  isChrome :: bool
  useRecorder :: bool
  config :: Config
  sampleRate :: int

text \<open>The initial values of the state cells; the empty queue is the array at address 0.\<close>

definition initialHook :: "Store \<Rightarrow> hook" where
  "initialHook st =
     \<lparr>audioContext = False, audioQueue = 0, currentSpeaker = SpeakerNone, processing = False,
      recorder = None, socket = None, status = StatusIdle, error = None, transcripts = [],
      active = True, arrays = (\<lambda>_. []), nextRef = 1, sources = [], played = [],
      playDeps = None, listenDeps = None, store = st, task = NotCalled,
      closureRecorder = False, closureSocket = False, socketError = None,
      inputAudioMetadata = \<lparr>samplingRate = 0, audioEncoding = ''linear16''\<rparr>\<rparr>"

text \<open>\<^verbatim>\<open>setAudioQueue(f)\<close> with an updater that builds a new array.\<close>

definition setAudioQueue :: "Buffer list \<Rightarrow> hook \<Rightarrow> hook" where
  "setAudioQueue xs h =
     h\<lparr>arrays := (arrays h)(nextRef h := xs), audioQueue := nextRef h,
       nextRef := Suc (nextRef h)\<rparr>"

subsection \<open>The effects (lines 79-91 and 102-130)\<close>

text \<open>
  The listener effect, with dependencies \<^verbatim>\<open>[recorder, socket, status, active]\<close>.
  Every render makes a new \<^verbatim>\<open>recordingDataListener\<close> function, so
  \<^verbatim>\<open>addEventListener\<close> attaches one more listener, and
  \<^verbatim>\<open>removeEventListener\<close> is given a function that was never attached and
  removes nothing.
\<close>

definition listenerEffect :: "hook \<Rightarrow> hook" where
  "listenerEffect h =
     (let deps = (recorder h \<noteq> None, socket h \<noteq> None, status h, active h) in
      if listenDeps h = Some deps then h
      else let h1 = h\<lparr>listenDeps := Some deps\<rparr> in
        (case recorder h1 of
           None \<Rightarrow> h1
         | Some r \<Rightarrow>
             if socket h1 = None then h1
             else if status h1 = StatusConnected
             then (if active h1
                   then h1\<lparr>recorder := Some (r\<lparr>listeners := Suc (listeners r)\<rparr>)\<rparr>
                   else h1)
             else h1))"

text \<open>
  The playback effect, with dependencies \<^verbatim>\<open>[audioQueue, processing, active]\<close>:
  \<^verbatim>\<open>
  if (!processing && audioQueue.length > 0 && active) {
    setProcessing(true);
    const audio = audioQueue.shift();
    audio && fetch(...).then(...).then(playArrayBuffer);
  }
  \<close>
  \<^verbatim>\<open>shift\<close> changes the array in place; the chunk goes to playback together with
  the array of this render.
\<close>

definition shift :: "'a list \<Rightarrow> 'a option \<times> 'a list" where
  "shift xs = (case xs of [] \<Rightarrow> (None, []) | x # rest \<Rightarrow> (Some x, rest))"

definition playEffect :: "hook \<Rightarrow> hook" where
  "playEffect h =
     (let deps = (audioQueue h, processing h, active h) in
      if playDeps h = Some deps then h
      else let h1 = h\<lparr>playDeps := Some deps\<rparr> in
        if \<not> processing h1 \<and> length (arrays h1 (audioQueue h1)) > 0 \<and> active h1
        then let (audio, rest) = shift (arrays h1 (audioQueue h1));
                 h2 = h1\<lparr>processing := True, arrays := (arrays h1)(audioQueue h1 := rest)\<rparr>
             in (case audio of
                   None \<Rightarrow> h2
                 | Some a \<Rightarrow>
                     h2\<lparr>sources := sources h2 @
                          [\<lparr>chunk = a, queue = audioQueue h1, started = False\<rparr>]\<rparr>)
        else h1)"

text \<open>
  After a handler has run, React renders and runs the effects whose dependencies
  changed, in the order of the source. The playback effect may set
  \<^verbatim>\<open>processing\<close>, which renders once more; the effects of that second render
  change no state cell.
\<close>

definition render :: "hook \<Rightarrow> hook" where
  "render h = playEffect (listenerEffect (playEffect (listenerEffect h)))"

text \<open>
  The mounted hook: the mount effect of lines 59-64 has created the audio context and
  the analyser, and the other effects have run once.
\<close>

definition mounted :: "Store \<Rightarrow> hook" where
  "mounted st = render ((initialHook st)\<lparr>audioContext := True\<rparr>)"

subsection \<open>Sending and closing\<close>

text \<open>
  \<^verbatim>\<open>WebSocket.send\<close> throws on a connecting socket, hands the frame to the
  transport on an open one and discards it on a closing or closed one.
  \<^verbatim>\<open>WebSocket.close\<close> starts the closing handshake unless the socket is closed.
\<close>

definition wsSend :: "Wire \<Rightarrow> WebSocket \<Rightarrow> jserror + WebSocket" where
  "wsSend w s =
     (case readyState s of
        CONNECTING \<Rightarrow> Inl InvalidStateError
      | OPEN \<Rightarrow> Inr (s\<lparr>sent := sent s @ [w]\<rparr>)
      | CLOSING \<Rightarrow> Inr s
      | CLOSED \<Rightarrow> Inr s)"

definition wsClose :: "WebSocket \<Rightarrow> WebSocket" where
  "wsClose s = (if readyState s = CLOSED then s else s\<lparr>readyState := CLOSING\<rparr>)"

subsection \<open>\<^verbatim>\<open>recordingDataListener\<close> (lines 66-76)\<close>

text \<open>
  The argument is what \<^verbatim>\<open>blobToBase64\<close> resolved to. \<^verbatim>\<open>!base64Encoded\<close>
  holds for \<^verbatim>\<open>null\<close> and for the empty string. The socket is the one of the
  render that made the listener; reading \<^verbatim>\<open>readyState\<close> of an undefined socket
  throws.
\<close>

definition recordingDataListener :: "string option \<Rightarrow> hook \<Rightarrow> jserror + hook" where
  "recordingDataListener base64Encoded h =
     (case base64Encoded of
        None \<Rightarrow> Inr h
      | Some d \<Rightarrow>
          if d = [] then Inr h
          else (case socket h of
                  None \<Rightarrow> Inl TypeError
                | Some s \<Rightarrow>
                    if readyState s = OPEN
                    then Inr (h\<lparr>socket :=
                                 Some (s\<lparr>sent := sent s @ [stringify (store h) (AudioMessage d)]\<rparr>)\<rparr>)
                    else Inr h))"

subsection \<open>\<^verbatim>\<open>stopConversation\<close> (lines 132-148)\<close>

text \<open>
  The first two arguments are the \<^verbatim>\<open>recorder\<close> and the \<^verbatim>\<open>socket\<close> of the
  closure the function belongs to. The result is the exception that escaped, if any,
  and the state. \<^verbatim>\<open>recorder.stop()\<close> leaves the recorder inactive.
\<close>

definition stopConversation ::
  "MediaRecorder option \<Rightarrow> WebSocket option \<Rightarrow> jserror option \<Rightarrow> hook \<Rightarrow> jserror option \<times> hook" where
  "stopConversation recorder' socket' err h =
     (let h1 = (setAudioQueue [] h)\<lparr>currentSpeaker := SpeakerNone\<rparr>;
          h2 = (case err of
                  Some x \<Rightarrow> h1\<lparr>error := Some x, status := StatusError\<rparr>
                | None \<Rightarrow> h1\<lparr>status := StatusIdle\<rparr>)
      in (case (recorder', socket') of
            (Some r, Some s) \<Rightarrow>
              let h3 = h2\<lparr>recorder := Some (r\<lparr>state := RecInactive\<rparr>)\<rparr> in
              (case wsSend (stringify (store h3) StopMessage) s of
                 Inl x \<Rightarrow> (Some x, h3)
               | Inr s1 \<Rightarrow> (None, h3\<lparr>socket := Some (wsClose s1)\<rparr>))
          | _ \<Rightarrow> (None, h2)))"

text \<open>The exported \<^verbatim>\<open>stop\<close>, called with no argument from the current render.\<close>

definition stop :: "hook \<Rightarrow> jserror option \<times> hook" where
  "stop h = stopConversation (recorder h) (socket h) None h"

text \<open>
  \<^verbatim>\<open>stopConversation\<close> as the closure of the pending \<^verbatim>\<open>startConversation\<close>
  sees it (\<^verbatim>\<open>socket.onclose\<close> and the \<^verbatim>\<open>catch\<close> of
  \<^verbatim>\<open>getMicrophoneStream\<close>): its \<^verbatim>\<open>recorder\<close> and \<^verbatim>\<open>socket\<close> are
  those of the render in which \<^verbatim>\<open>start\<close> was called.
\<close>

definition closureRec :: "hook \<Rightarrow> MediaRecorder option" where
  "closureRec h = (if closureRecorder h then recorder h else None)"

definition closureSock :: "hook \<Rightarrow> WebSocket option" where
  "closureSock h = (if closureSocket h then socket h else None)"

subsection \<open>\<^verbatim>\<open>startConversation\<close> (lines 306-462)\<close>

text \<open>
  Lines 306-358, up to the wait for the socket: the guard on the audio context, the
  capability probe, the URL, the new socket with its handlers. The closure of the call
  holds the recorder and the socket of the render it was made in.
\<close>

definition startConversation :: "env \<Rightarrow> hook \<Rightarrow> hook" where
  "startConversation e h =
     (let h0 = h\<lparr>closureRecorder := (recorder h \<noteq> None), closureSocket := (socket h \<noteq> None)\<rparr> in
      if \<not> audioContext h0 then h0\<lparr>task := Returned\<rparr>
      else let h1 = h0\<lparr>status := StatusConnecting\<rparr> in
        if \<not> isSafari e \<and> \<not> isChrome e
        then (case stopConversation (closureRec h1) (closureSock h1)
                     (Some (Error ''Unsupported browser'')) h1 of
                (None, h2) \<Rightarrow> h2\<lparr>task := Returned\<rparr>
              | (Some x, h2) \<Rightarrow> h2\<lparr>task := Rejected x\<rparr>)
        else (case getBackendUrl (config e) of
                Inl x \<Rightarrow> h1\<lparr>task := Rejected x\<rparr>
              | Inr u \<Rightarrow>
                  h1\<lparr>error := None,
                     socket := Some \<lparr>url = u, readyState = CONNECTING, sent = []\<rparr>,
                     socketError := None,
                     task := WaitOpen\<rparr>))"

text \<open>
  Lines 388-462, once the microphone stream is there or is not asked for: the output
  metadata, the start message, \<^verbatim>\<open>socket.send\<close>, and with a microphone the
  recorder and its time slice.
\<close>

definition sendStart :: "env \<Rightarrow> bool \<Rightarrow> hook \<Rightarrow> hook" where
  "sendStart e audioStream h =
     (let outputAudioMetadata =
            \<lparr>samplingRate =
               (case outputSamplingRate (audioDeviceConfig (config e)) of
                  None \<Rightarrow> sampleRate e
                | Some r \<Rightarrow> if r = 0 then sampleRate e else r),
             audioEncoding = ''linear16''\<rparr>
      in (case selectStartMessage (isSafari e) (config e) (inputAudioMetadata h)
                 outputAudioMetadata (store h) of
            Inl x \<Rightarrow> h\<lparr>task := Rejected x\<rparr>
          | Inr (startMessage, st1) \<Rightarrow>
              let h1 = h\<lparr>store := st1\<rparr> in
              (case socket h1 of
                 None \<Rightarrow> h1\<lparr>task := Rejected TypeError\<rparr>
               | Some s \<Rightarrow>
                   (case wsSend (stringify st1 startMessage) s of
                      Inl x \<Rightarrow> h1\<lparr>task := Rejected x\<rparr>
                    | Inr s1 \<Rightarrow>
                        let h2 = h1\<lparr>socket := Some s1\<rparr> in
                        if \<not> audioStream then h2\<lparr>task := Returned\<rparr>
                        else
                          let recorderToUse =
                                (case closureRec h2 of
                                   Some r \<Rightarrow> if state r = RecPaused
                                             then r\<lparr>state := RecRecording\<rparr> else r
                                 | None \<Rightarrow> \<lparr>state = RecInactive, listeners = 0,
                                            startedWith = None\<rparr>);
                              timeSlice' = timeSliceOf st1 startMessage (config e)
                          in if state recorderToUse = RecRecording
                             then h2\<lparr>recorder := Some recorderToUse, task := Returned\<rparr>
                             else h2\<lparr>recorder := Some (recorderToUse
                                         \<lparr>state := RecRecording, startedWith := Some timeSlice'\<rparr>),
                                     task := Returned\<rparr>))))"

text \<open>
  The interval callback of lines 361-368 and what follows it up to the next wait
  (lines 370-384): nothing while the socket is not open; then the input metadata, and
  either the wait for the microphone or the rest of the function.
\<close>

definition tick :: "env \<Rightarrow> hook \<Rightarrow> hook" where
  "tick e h =
     (case (task h, socket h) of
        (WaitOpen, Some s) \<Rightarrow>
          if readyState s = OPEN
          then let h1 = h\<lparr>inputAudioMetadata :=
                            \<lparr>samplingRate = sampleRate e, audioEncoding = ''linear16''\<rparr>\<rparr>
               in if useRecorder e then h1\<lparr>task := WaitMic\<rparr> else sendStart e False h1
          else h
      | _ \<Rightarrow> h)"

text \<open>
  \<^verbatim>\<open>getMicrophoneStream\<close> resolved with a stream whose track settings have the
  given \<^verbatim>\<open>sampleRate\<close>.
\<close>

definition micGranted :: "env \<Rightarrow> int option \<Rightarrow> hook \<Rightarrow> hook" where
  "micGranted e micSampleRate h =
     (case task h of
        WaitMic \<Rightarrow>
          sendStart e True
            (case micSampleRate of
               None \<Rightarrow> h
             | Some r \<Rightarrow>
                 if r = 0 then h
                 else h\<lparr>inputAudioMetadata := (inputAudioMetadata h)\<lparr>samplingRate := r\<rparr>\<rparr>)
      | _ \<Rightarrow> h)"

text \<open>
  \<^verbatim>\<open>getMicrophoneStream\<close> caught an error: it calls
  \<^verbatim>\<open>stopConversation(error)\<close> and returns \<^verbatim>\<open>undefined\<close>, on which
  \<^verbatim>\<open>getAudioTracks\<close> throws.
\<close>

definition micFailed :: "jserror \<Rightarrow> hook \<Rightarrow> hook" where
  "micFailed x h =
     (case task h of
        WaitMic \<Rightarrow>
          (case stopConversation (closureRec h) (closureSock h) (Some x) h of
             (None, h1) \<Rightarrow> h1\<lparr>task := Rejected TypeError\<rparr>
           | (Some y, h1) \<Rightarrow> h1\<lparr>task := Rejected y\<rparr>)
      | _ \<Rightarrow> h)"

subsection \<open>The handlers of the socket (lines 324-357)\<close>

datatype InMessage = InAudio string | InReady | InTranscript Transcript | InOther

definition onmessage :: "InMessage \<Rightarrow> hook \<Rightarrow> hook" where
  "onmessage message h =
     (case message of
        InAudio d \<Rightarrow> setAudioQueue (arrays h (audioQueue h) @ [d]) h
      | InReady \<Rightarrow> h\<lparr>status := StatusConnected\<rparr>
      | InTranscript t \<Rightarrow> h\<lparr>transcripts := onTranscript (transcripts h) t\<rparr>
      | InOther \<Rightarrow> h)"

definition onerror :: "hook \<Rightarrow> hook" where
  "onerror h = h\<lparr>socketError := Some (Error ''See console for error details'')\<rparr>"

definition onclose :: "hook \<Rightarrow> hook" where
  "onclose h = snd (stopConversation (closureRec h) (closureSock h) (socketError h) h)"

subsection \<open>Playback callbacks (lines 103-121)\<close>

text \<open>
  The \<^verbatim>\<open>decodeAudioData\<close> callback of the first chunk that has not started:
  \<^verbatim>\<open>setCurrentSpeaker("agent"); source.start(0)\<close>.
\<close>

fun startFirst :: "Source list \<Rightarrow> Buffer option \<times> Source list" where
  "startFirst [] = (None, [])"
| "startFirst (s # ss) =
     (if started s then (case startFirst ss of (b, ss') \<Rightarrow> (b, s # ss'))
      else (Some (chunk s), s\<lparr>started := True\<rparr> # ss))"

definition decoded :: "hook \<Rightarrow> hook" where
  "decoded h =
     (if \<not> audioContext h then h
      else (case startFirst (sources h) of
              (Some b, ss) \<Rightarrow>
                h\<lparr>currentSpeaker := SpeakerAgent, sources := ss, played := played h @ [b]\<rparr>
            | (None, _) \<Rightarrow> h))"

text \<open>
  \<^verbatim>\<open>source.onended\<close> of the first chunk that has started:
  \<^verbatim>\<open>
  if (audioQueue.length <= 0) { setCurrentSpeaker("user"); }
  setProcessing(false);
  \<close>
  where \<^verbatim>\<open>audioQueue\<close> is the array of the effect's closure.
\<close>

fun endFirst :: "Source list \<Rightarrow> Source option \<times> Source list" where
  "endFirst [] = (None, [])"
| "endFirst (s # ss) =
     (if started s then (Some s, ss)
      else (case endFirst ss of (r, ss') \<Rightarrow> (r, s # ss')))"

definition ended :: "hook \<Rightarrow> hook" where
  "ended h =
     (case endFirst (sources h) of
        (Some s, ss) \<Rightarrow>
          (if length (arrays h (queue s)) \<le> 0
           then h\<lparr>currentSpeaker := SpeakerUser\<rparr> else h)
            \<lparr>processing := False, sources := ss\<rparr>
      | (None, _) \<Rightarrow> h)"

subsection \<open>Events\<close>

text \<open>
  What can happen to a hook on which \<^verbatim>\<open>start\<close> has been called: the user calls
  \<^verbatim>\<open>stop\<close> or \<^verbatim>\<open>toggleActive\<close>, the socket opens, fails, closes or
  delivers a message, the interval fires, the microphone is granted or not, the recorder
  has data (with the result of \<^verbatim>\<open>blobToBase64\<close>), a chunk is decoded and starts
  to play, a chunk ends. An event that cannot occur in a state (the socket opens twice,
  a chunk ends that never started) leaves the state as it is. Each handler runs to its
  end and React renders before the next event.
\<close>

datatype event =
    Stop
  | ToggleActive
  | SockOpen
  | SockError
  | SockClose
  | Recv InMessage
  | Tick
  | MicGranted "int option"
  | MicFailed jserror
  | DataAvailable "string option"
  | Decoded
  | Ended

primrec fire :: "nat \<Rightarrow> string option \<Rightarrow> hook \<Rightarrow> hook" where
  "fire 0 b h = h"
| "fire (Suc n) b h =
     fire n b (case recordingDataListener b h of Inl _ \<Rightarrow> h | Inr h' \<Rightarrow> h')"

definition handle :: "env \<Rightarrow> event \<Rightarrow> hook \<Rightarrow> hook" where
  "handle e ev h =
     (case ev of
        Stop \<Rightarrow> snd (stop h)
      | ToggleActive \<Rightarrow> h\<lparr>active := \<not> active h\<rparr>
      | SockOpen \<Rightarrow>
          (case socket h of
             Some s \<Rightarrow> if readyState s = CONNECTING
                       then h\<lparr>socket := Some (s\<lparr>readyState := OPEN\<rparr>)\<rparr> else h
           | None \<Rightarrow> h)
      | SockError \<Rightarrow> (case socket h of Some s \<Rightarrow> onerror h | None \<Rightarrow> h)
      | SockClose \<Rightarrow>
          (case socket h of
             Some s \<Rightarrow> if readyState s = CLOSED then h
                       else onclose (h\<lparr>socket := Some (s\<lparr>readyState := CLOSED\<rparr>)\<rparr>)
           | None \<Rightarrow> h)
      | Recv message \<Rightarrow> onmessage message h
      | Tick \<Rightarrow> tick e h
      | MicGranted r \<Rightarrow> micGranted e r h
      | MicFailed x \<Rightarrow> micFailed x h
      | DataAvailable b \<Rightarrow>
          (case recorder h of
             Some r \<Rightarrow> if state r = RecRecording then fire (listeners r) b h else h
           | None \<Rightarrow> h)
      | Decoded \<Rightarrow> decoded h
      | Ended \<Rightarrow> ended h)"

definition step :: "env \<Rightarrow> hook \<Rightarrow> event \<Rightarrow> hook" where
  "step e h ev = render (handle e ev h)"

definition run :: "env \<Rightarrow> event list \<Rightarrow> hook \<Rightarrow> hook" where
  "run e evs h = foldl (step e) h evs"

text \<open>The exported \<^verbatim>\<open>start\<close>, followed by the render.\<close>

definition start :: "env \<Rightarrow> hook \<Rightarrow> hook" where
  "start e h = render (startConversation e h)"

text \<open>The frames the socket of the hook has sent, by type.\<close>

definition sentLog :: "hook \<Rightarrow> Wire list" where
  "sentLog h = (case socket h of None \<Rightarrow> [] | Some s \<Rightarrow> sent s)"

definition pending :: "hook \<Rightarrow> Buffer list" where
  "pending h = arrays h (audioQueue h)"

subsection \<open>The order of the frames on the channel\<close>






subsection \<open>Concrete inputs\<close>

definition exampleStore :: Store where
  "exampleStore =
     \<lparr>transcribers = (\<lambda>_. \<lparr>samplingRate = 16000, audioEncoding = ''linear16'',
                            InputAudioConfig.chunkSize = 2048,
                            InputAudioConfig.downsampling = None,
                            type = ''transcriber_deepgram''\<rparr>),
      synthesizers = (\<lambda>_. \<lparr>samplingRate = 16000, audioEncoding = ''linear16'',
                            synthesizerType = ''synthesizer_azure''\<rparr>)\<rparr>"

definition selfHostedConfig :: Config where
  "selfHostedConfig =
     \<lparr>audioDeviceConfig = \<lparr>inputDeviceId = None, outputSamplingRate = None\<rparr>,
      vocodeConfig = None, transcriberConfig = None, agentConfig = None,
      synthesizerConfig = None, backendUrl = Some ''wss://host/conversation'',
      chunkSize = None, downsampling = None, conversationId = None,
      subscribeTranscript = None, timeSlice = None\<rparr>"

definition hostedConfig :: Config where
  "hostedConfig =
     \<lparr>audioDeviceConfig = \<lparr>inputDeviceId = None, outputSamplingRate = None\<rparr>,
      vocodeConfig = Some \<lparr>apiKey = ''key'', baseUrl = None, conversationId = None\<rparr>,
      transcriberConfig = Some 0, agentConfig = Some ''agent'',
      synthesizerConfig = Some 0, backendUrl = None,
      chunkSize = None, downsampling = None, conversationId = None,
      subscribeTranscript = None, timeSlice = None\<rparr>"

definition listenOnlyEnv :: env where
  "listenOnlyEnv =
     \<lparr>isSafari = False, isChrome = True, useRecorder = False, config = selfHostedConfig,
      sampleRate = 48000\<rparr>"

definition unsupportedEnv :: env where
  "unsupportedEnv =
     \<lparr>isSafari = False, isChrome = False, useRecorder = False, config = selfHostedConfig,
      sampleRate = 48000\<rparr>"

definition micMetadata :: AudioMetadata where
  "micMetadata = \<lparr>samplingRate = 44100, audioEncoding = ''linear16''\<rparr>"


text \<open>A hook that was paused when nothing was playing.\<close>

definition pausedHook :: hook where
  "pausedHook = step listenOnlyEnv (mounted exampleStore) ToggleActive"

section \<open>Auxiliary facts\<close>

subsection \<open>What a render changes\<close>

text \<open>
  The listener effect writes the recorder and its own dependencies, the playback effect
  writes the playback cells; so a render is two runs of the playback effect, up to the
  recorder and the dependencies of the listener effect.
\<close>

lemma listenerEffect_shape:
  "listenerEffect h = h\<lparr>recorder := recorder (listenerEffect h), listenDeps := listenDeps (listenerEffect h)\<rparr>"
  by (cases "recorder h") (simp_all add: listenerEffect_def Let_def)

lemma listenerEffect_recorder_None:
  "(recorder (listenerEffect h) = None) = (recorder h = None)"
  by (cases "recorder h") (simp_all add: listenerEffect_def Let_def)


lemma playEffect_recorder: "recorder (playEffect h) = recorder h"
  by (simp add: playEffect_def Let_def shift_def split: list.splits)


lemma render_recorder_None: "(recorder (render h) = None) = (recorder h = None)"
  by (simp add: render_def listenerEffect_recorder_None playEffect_recorder)


subsection \<open>The playback effect by cases\<close>












subsection \<open>Runs\<close>




subsection \<open>Playback, one step at a time\<close>














subsection \<open>The invariant of a session\<close>


lemma playEffect_keeps:
  "socket (playEffect h) = socket h" "task (playEffect h) = task h"
  "closureRecorder (playEffect h) = closureRecorder h" "closureSocket (playEffect h) = closureSocket h"
  "recorder (playEffect h) = recorder h"
  by (simp_all add: playEffect_def Let_def shift_def split: list.splits)















lemma mounted_fields:
  "recorder (mounted st) = None" "socket (mounted st) = None" "audioContext (mounted st)"
  "task (mounted st) = NotCalled" "status (mounted st) = StatusIdle" "error (mounted st) = None"
  by (simp_all add: mounted_def render_def playEffect_def listenerEffect_def initialHook_def Let_def)






subsection \<open>The start message is sent once the socket is open\<close>

lemma listenerEffect_session_fields:
  "socket (listenerEffect h) = socket h" "task (listenerEffect h) = task h"
  "status (listenerEffect h) = status h" "error (listenerEffect h) = error h"
  by (subst listenerEffect_shape, simp)+

lemma playEffect_session_fields:
  "status (playEffect h) = status h" "error (playEffect h) = error h"
  by (simp_all add: playEffect_def Let_def shift_def split: list.splits)

lemma render_session_fields:
  "socket (render h) = socket h" "task (render h) = task h"
  "status (render h) = status h" "error (render h) = error h"
  by (simp_all add: render_def playEffect_keeps playEffect_session_fields
      listenerEffect_session_fields)

lemma sentLog_render: "sentLog (render h) = sentLog h"
  by (simp add: sentLog_def render_session_fields)












text \<open>The definitions a concrete run is evaluated with.\<close>

lemmas eval_defs =
  run_def step_def handle_def start_def mounted_def initialHook_def render_def
  playEffect_def listenerEffect_def startConversation_def getBackendUrl_def tick_def
  sendStart_def selectStartMessage_def hasKey_def getAudioConfigStartMessage_def
  getStartMessage_def assignTranscriber_def assignSynthesizer_def wsSend_def wsClose_def
  onmessage_def setAudioQueue_def decoded_def ended_def shift_def sentLog_def pending_def
  stop_def stopConversation_def closureRec_def closureSock_def micGranted_def micFailed_def
  onerror_def onclose_def recordingDataListener_def timeSliceOf_def DEFAULT_CHUNK_SIZE_def
  VOCODE_API_URL_def Let_def
  exampleStore_def selfHostedConfig_def hostedConfig_def listenOnlyEnv_def unsupportedEnv_def
  micMetadata_def pausedHook_def

section \<open>Theorems\<close>

subsection \<open>C1: the start message on the channel\<close>




subsection \<open>C2: merging transcript fragments\<close>

text \<open>
  C2. For every incoming fragment: when the transcript is non-empty and its last entry
  has the fragment's sender, the last entry's text becomes the old text, a space and the
  fragment's text, and nothing else changes; otherwise the fragment is appended as a new
  entry. The stream (user, hi), (user, there), (agent, hello) applied to the empty
  transcript gives the two entries (user, hi there), (agent, hello).
\<close>

theorem onTranscript_merge:
  "onTranscript ts f =
     (if ts \<noteq> [] \<and> sender (last ts) = sender f
      then butlast ts @ [\<lparr>sender = sender f, textStr = textStr (last ts) @ '' '' @ textStr f\<rparr>]
      else ts @ [\<lparr>sender = sender f, textStr = textStr f\<rparr>])
   \<and> foldl onTranscript []
        [\<lparr>sender = ''user'', textStr = ''hi''\<rparr>,
         \<lparr>sender = ''user'', textStr = ''there''\<rparr>,
         \<lparr>sender = ''agent'', textStr = ''hello''\<rparr>]
      = [\<lparr>sender = ''user'', textStr = ''hi there''\<rparr>, \<lparr>sender = ''agent'', textStr = ''hello''\<rparr>]
   \<and> length (foldl onTranscript []
        [\<lparr>sender = ''user'', textStr = ''hi''\<rparr>,
         \<lparr>sender = ''user'', textStr = ''there''\<rparr>,
         \<lparr>sender = ''agent'', textStr = ''hello''\<rparr>]) = 2"
  by (simp add: onTranscript_def pop_def push_def)

subsection \<open>C3: the choice of the start message\<close>


subsection \<open>C4: the speaker while chunks wait\<close>

text \<open>
  C4 fails on the code. Chunk A arrives and starts to play, chunks B and C arrive while
  it plays, A ends: \<^verbatim>\<open>onended\<close> reads the array A was taken from, which is
  empty, and sets the speaker to \<^verbatim>\<open>user\<close> although B is about to play and C
  waits in the queue. The order of playback is not affected: A has played, B is next.
\<close>

theorem speaker_user_while_chunks_wait:
  "currentSpeaker (run listenOnlyEnv
       [SockOpen, Tick, Recv InReady, Recv (InAudio ''A''), Decoded, Recv (InAudio ''B''),
        Recv (InAudio ''C''), Ended] (start listenOnlyEnv (mounted exampleStore))) = SpeakerUser
   \<and> played (run listenOnlyEnv
       [SockOpen, Tick, Recv InReady, Recv (InAudio ''A''), Decoded, Recv (InAudio ''B''),
        Recv (InAudio ''C''), Ended] (start listenOnlyEnv (mounted exampleStore))) = [''A'']
   \<and> map chunk (sources (run listenOnlyEnv
       [SockOpen, Tick, Recv InReady, Recv (InAudio ''A''), Decoded, Recv (InAudio ''B''),
        Recv (InAudio ''C''), Ended] (start listenOnlyEnv (mounted exampleStore)))) = [''B'']
   \<and> pending (run listenOnlyEnv
       [SockOpen, Tick, Recv InReady, Recv (InAudio ''A''), Decoded, Recv (InAudio ''B''),
        Recv (InAudio ''C''), Ended] (start listenOnlyEnv (mounted exampleStore))) = [''C'']"
  by (simp add: eval_defs)

subsection \<open>C5: pausing and resuming playback\<close>



subsection \<open>C6: downsampling on Safari\<close>

text \<open>
  C6. In the serialized full-service start message the transcriber configuration has
  \<^verbatim>\<open>downsampling = 2\<close> when the probe says Safari and the transcriber type is
  \<^verbatim>\<open>transcriber_deepgram\<close>; for every other combination it has the configured
  value.
\<close>

theorem getStartMessage_downsampling:
  assumes "transcriberConfig cfg = Some t" and "synthesizerConfig cfg = Some s"
    and "vocodeConfig cfg = Some v"
  shows "\<exists>tc sc st'.
           getStartMessage saf cfg inM outM st
             = Inr (StartMessage t (agentConfig cfg) s (VocodeConfig.conversationId v), st')
         \<and> stringify st' (StartMessage t (agentConfig cfg) s (VocodeConfig.conversationId v))
             = WsStart tc (agentConfig cfg) sc (VocodeConfig.conversationId v)
         \<and> InputAudioConfig.downsampling tc
             = (if saf \<and> type (transcribers st t) = ''transcriber_deepgram''
                then Some 2 else InputAudioConfig.downsampling (transcribers st t))"
  using assms
  by (simp add: getStartMessage_def assignTranscriber_def assignSynthesizer_def Let_def)

theorem getStartMessage_downsampling_witness:
  "transcriberConfig hostedConfig = Some 0 \<and> synthesizerConfig hostedConfig = Some 0
   \<and> vocodeConfig hostedConfig = Some \<lparr>apiKey = ''key'', baseUrl = None, conversationId = None\<rparr>
   \<and> (\<exists>tc sc st'.
         getStartMessage True hostedConfig micMetadata micMetadata exampleStore
           = Inr (StartMessage 0 (agentConfig hostedConfig) 0 None, st')
       \<and> stringify st' (StartMessage 0 (agentConfig hostedConfig) 0 None)
           = WsStart tc (agentConfig hostedConfig) sc None
       \<and> InputAudioConfig.downsampling tc = Some 2)"
proof -
  have 1: "transcriberConfig hostedConfig = Some 0" "synthesizerConfig hostedConfig = Some 0"
    "vocodeConfig hostedConfig = Some \<lparr>apiKey = ''key'', baseUrl = None, conversationId = None\<rparr>"
    by (simp_all add: hostedConfig_def)
  have 2: "type (transcribers exampleStore 0) = ''transcriber_deepgram''"
    by (simp add: exampleStore_def)
  show ?thesis
    using getStartMessage_downsampling [OF 1, of True micMetadata micMetadata exampleStore] 1 2
    by simp
qed

subsection \<open>C7: the capture time slice\<close>



subsection \<open>C8: stop on an idle hook\<close>

text \<open>
  C8. On an idle hook with no error, no recorder and no socket, \<^verbatim>\<open>stop()\<close>
  throws nothing, leaves the error unset and the status idle, and creates neither
  recorder nor socket.
\<close>

theorem stop_on_idle:
  assumes "status h = StatusIdle" and "error h = None" and "recorder h = None"
    and "socket h = None"
  shows "fst (stop h) = None \<and> status (snd (stop h)) = StatusIdle \<and> error (snd (stop h)) = None
       \<and> socket (snd (stop h)) = None \<and> recorder (snd (stop h)) = None
       \<and> status (step e h Stop) = StatusIdle \<and> error (step e h Stop) = None"
  using assms
  by (simp add: step_def handle_def render_session_fields)
     (simp add: stop_def stopConversation_def setAudioQueue_def)

theorem stop_on_idle_witness:
  "status (mounted exampleStore) = StatusIdle \<and> error (mounted exampleStore) = None
   \<and> recorder (mounted exampleStore) = None \<and> socket (mounted exampleStore) = None
   \<and> fst (stop (mounted exampleStore)) = None
   \<and> status (snd (stop (mounted exampleStore))) = StatusIdle
   \<and> error (snd (stop (mounted exampleStore))) = None"
  using stop_on_idle [of "mounted exampleStore" listenOnlyEnv]
  by (simp add: mounted_fields)

subsection \<open>C9: an unsupported browser\<close>

text \<open>
  C9, as amended. When the probe finds neither Safari nor Chrome and the hook has no
  socket, \<^verbatim>\<open>start()\<close> returns without an exception and opens no socket; when
  the audio context and the analyser exist it leaves the status \<^verbatim>\<open>error\<close>
  with the error "Unsupported browser", and when they do not exist yet it leaves status
  and error as they were.
\<close>

theorem unsupported_browser:
  assumes "\<not> isSafari e" and "\<not> isChrome e" and "socket h = None"
  shows "task (start e h) = Returned \<and> socket (start e h) = None
       \<and> (if audioContext h
           then status (start e h) = StatusError
              \<and> error (start e h) = Some (Error ''Unsupported browser'')
           else status (start e h) = status h \<and> error (start e h) = error h)"
  using assms
  by (simp add: start_def render_session_fields)
     (simp add: startConversation_def stopConversation_def closureRec_def closureSock_def
        setAudioQueue_def Let_def split: option.splits)

theorem unsupported_browser_witness:
  "\<not> isSafari unsupportedEnv \<and> \<not> isChrome unsupportedEnv \<and> socket (mounted exampleStore) = None
   \<and> audioContext (mounted exampleStore)
   \<and> task (start unsupportedEnv (mounted exampleStore)) = Returned
   \<and> socket (start unsupportedEnv (mounted exampleStore)) = None
   \<and> status (start unsupportedEnv (mounted exampleStore)) = StatusError
   \<and> error (start unsupportedEnv (mounted exampleStore)) = Some (Error ''Unsupported browser'')"
proof -
  have 1: "\<not> isSafari unsupportedEnv" "\<not> isChrome unsupportedEnv"
    by (simp_all add: unsupportedEnv_def)
  from unsupported_browser [OF 1, of "mounted exampleStore"] 1 show ?thesis
    by (simp add: mounted_fields)
qed

text \<open>
  C9 as stated fails: before the mount effect has set the audio context,
  \<^verbatim>\<open>start()\<close> on an unsupported browser leaves the status idle and the error
  unset.
\<close>

theorem unsupported_browser_no_context:
  "\<not> isSafari unsupportedEnv \<and> \<not> isChrome unsupportedEnv
   \<and> status (start unsupportedEnv (render (initialHook exampleStore))) = StatusIdle
   \<and> error (start unsupportedEnv (render (initialHook exampleStore))) = None"
  by (simp add: start_def render_session_fields)
     (simp add: startConversation_def unsupportedEnv_def initialHook_def render_def
        playEffect_def listenerEffect_def Let_def)

subsection \<open>C10: chunks the listener drops\<close>

text \<open>
  C10. When \<^verbatim>\<open>blobToBase64\<close> gives \<^verbatim>\<open>null\<close>, or the socket is not open,
  the listener sends nothing and throws nothing: the state is unchanged, and after the
  data event the frames sent, the error and the status are as before.
\<close>

theorem listener_drops_chunk:
  assumes "base64Encoded = None \<or> (\<exists>s. socket h = Some s \<and> readyState s \<noteq> OPEN)"
  shows "recordingDataListener base64Encoded h = Inr h
       \<and> sentLog (step e h (DataAvailable base64Encoded)) = sentLog h
       \<and> error (step e h (DataAvailable base64Encoded)) = error h
       \<and> status (step e h (DataAvailable base64Encoded)) = status h"
proof -
  have 1: "recordingDataListener base64Encoded h = Inr h"
    using assms by (auto simp: recordingDataListener_def split: option.splits)
  have "fire n base64Encoded h = h" for n
    by (induction n) (simp_all add: 1)
  then show ?thesis
    using 1 by (simp add: step_def handle_def sentLog_render render_session_fields
        split: option.splits)
qed

theorem listener_drops_chunk_witness:
  "(\<exists>s. socket (start listenOnlyEnv (mounted exampleStore)) = Some s \<and> readyState s \<noteq> OPEN)
   \<and> recordingDataListener (Some ''abc'') (start listenOnlyEnv (mounted exampleStore))
       = Inr (start listenOnlyEnv (mounted exampleStore))
   \<and> recordingDataListener None (mounted exampleStore) = Inr (mounted exampleStore)"
proof -
  have 1: "\<exists>s. socket (start listenOnlyEnv (mounted exampleStore)) = Some s \<and> readyState s \<noteq> OPEN"
    by (simp add: start_def render_session_fields startConversation_def mounted_fields
        listenOnlyEnv_def selfHostedConfig_def getBackendUrl_def Let_def)
  from listener_drops_chunk [of "Some ''abc''" "start listenOnlyEnv (mounted exampleStore)"] 1
    listener_drops_chunk [of None "mounted exampleStore"]
  show ?thesis by simp
qed

end
